theory Spec2Isabelle
  imports Complex_Main "HOL-Library.Product_Lexorder" "HOL-Library.AList"
begin

section \<open>Python values, exceptions and built-ins used by app.py\<close>

text \<open>
  Python floats are idealised as the reals (no NaN, no infinity, no rounding of
  arithmetic); Python's unbounded ints are \<open>int\<close> or \<open>nat\<close>; \<open>str\<close> is \<open>string\<close>
  (ASCII text), and a value that may be \<open>None\<close> is an \<open>option\<close>.
  An exception is a value of \<open>py_error\<close>, and a function that can raise returns
  \<open>py_error + 'a\<close> with \<open>Inl\<close> for the exception.
\<close>

datatype py_error = KeyError string | ValueError | TypeError | ZeroDivisionError

text \<open>\<^verbatim>\<open>a / b\<close> on floats raises ZeroDivisionError when \<open>b\<close> is zero.\<close>

definition py_truediv :: "real \<Rightarrow> real \<Rightarrow> py_error + real" where
  "py_truediv a b = (if b = 0 then Inl ZeroDivisionError else Inr (a / b))"

text \<open>
  \<^verbatim>\<open>round(x, n)\<close>: the nearest multiple of \<open>10^-n\<close>, an exact tie going to the even
  neighbour.
\<close>

definition round_half_even :: "real \<Rightarrow> int" where
  "round_half_even x =
     (let f = \<lfloor>x\<rfloor>; d = x - of_int f
      in if d < 1 / 2 then f else if 1 / 2 < d then f + 1 else if even f then f else f + 1)"

definition py_round :: "real \<Rightarrow> nat \<Rightarrow> real" where
  "py_round x n = of_int (round_half_even (x * 10 ^ n)) / 10 ^ n"

text \<open>\<^verbatim>\<open>int(x)\<close> on a float truncates towards zero.\<close>

definition py_int :: "real \<Rightarrow> int" where
  "py_int x = (if 0 \<le> x then \<lfloor>x\<rfloor> else \<lceil>x\<rceil>)"

text \<open>\<^verbatim>\<open>x or d\<close> for an \<open>x\<close> that is a string or None: None and the empty string are falsy.\<close>

definition py_or :: "string option \<Rightarrow> string \<Rightarrow> string" where
  "py_or x d = (case x of None \<Rightarrow> d | Some s \<Rightarrow> if s = [] then d else s)"

text \<open>\<^verbatim>\<open>str.strip()\<close> and \<^verbatim>\<open>str.lower()\<close> on ASCII text.\<close>

definition is_space :: "char \<Rightarrow> bool" where
  "is_space c = (of_char c \<in> {9, 10, 11, 12, 13, 28, 29, 30, 31, 32 :: nat})"

definition lower_char :: "char \<Rightarrow> char" where
  "lower_char c =
     (case map_of (zip ''ABCDEFGHIJKLMNOPQRSTUVWXYZ'' ''abcdefghijklmnopqrstuvwxyz'') c of
        Some l \<Rightarrow> l
      | None \<Rightarrow> c)"

definition py_strip :: "string \<Rightarrow> string" where
  "py_strip s = rev (dropWhile is_space (rev (dropWhile is_space s)))"

definition py_lower :: "string \<Rightarrow> string" where
  "py_lower s = map lower_char s"

text \<open>\<^verbatim>\<open>str(i)\<close> of an int, as an f-string prints it; \<^verbatim>\<open>str(None)\<close> is \<^verbatim>\<open>None\<close>.\<close>

fun nat_digits :: "nat \<Rightarrow> string" where
  "nat_digits n =
     (if n < 10 then [''0123456789'' ! n]
      else nat_digits (n div 10) @ [''0123456789'' ! (n mod 10)])"

declare nat_digits.simps [simp del]

definition py_str_int :: "int \<Rightarrow> string" where
  "py_str_int i = (if i < 0 then CHR ''-'' # nat_digits (nat (- i)) else nat_digits (nat i))"

definition py_str_opt :: "string option \<Rightarrow> string" where
  "py_str_opt x = (case x of None \<Rightarrow> ''None'' | Some s \<Rightarrow> s)"

text \<open>
  \<^verbatim>\<open>max(d, key=d.get)\<close> over a dict given as its items in insertion order: the first
  key is the candidate, and a later key replaces it only when its value is strictly
  greater. On an empty dict \<^verbatim>\<open>max\<close> raises ValueError.
\<close>

fun py_max_key :: "('k \<times> real) list \<Rightarrow> py_error + 'k" where
  "py_max_key [] = Inl ValueError"
| "py_max_key (kv # kvs) =
     Inr (fst (foldl (\<lambda>best cand. if snd best < snd cand then cand else best) kv kvs))"

section \<open>Risk tiering\<close>

definition compute_risk_level :: "real \<Rightarrow> string" where
  "compute_risk_level probability =
     (if probability < 0.3 then ''Low''
      else if probability < 0.7 then ''Medium''
      else ''High'')"

section \<open>Environmental and facility context lookups\<close>

definition sample_data :: "(string \<times> int) list" where
  "sample_data =
     [(''surat'', 130), (''ahmedabad'', 160), (''mumbai'', 140), (''delhi'', 220),
      (''pune'', 110)]"

text \<open>
  \<open>get_region_aqi\<close> takes a region that is a string or None. None of its steps can
  raise on such an argument (\<^verbatim>\<open>or\<close>, \<^verbatim>\<open>strip\<close>, \<^verbatim>\<open>lower\<close>, \<^verbatim>\<open>dict.get\<close> with a default,
  integer comparisons), so the model returns the pair directly.
\<close>

definition get_region_aqi :: "string option \<Rightarrow> int \<times> string" where
  "get_region_aqi region =
     (let region_key = py_lower (py_strip (py_or region ''unknown''));
          aqi = (case map_of sample_data region_key of Some v \<Rightarrow> v | None \<Rightarrow> 90);
          category =
            (if aqi \<le> 50 then ''Good''
             else if aqi \<le> 100 then ''Satisfactory''
             else if aqi \<le> 200 then ''Moderate''
             else if aqi \<le> 300 then ''Poor''
             else if aqi \<le> 400 then ''Very Poor''
             else ''Severe'')
      in (aqi, category))"

record hospital =
  name :: string
  phone :: string
  address :: string

definition hospitals_map :: "(string \<times> hospital list) list" where
  "hospitals_map =
     [(''surat'',
       [\<lparr>name = ''New Civil Hospital, Surat'', phone = ''+91-261-XYZ-0001'',
          address = ''Ring Road, Surat''\<rparr>,
        \<lparr>name = ''SMIMER Hospital'', phone = ''+91-261-XYZ-0002'',
          address = ''Dumas Road, Surat''\<rparr>]),
      (''ahmedabad'',
       [\<lparr>name = ''Civil Hospital, Ahmedabad'', phone = ''+91-79-XYZ-0001'',
          address = ''Asarwa, Ahmedabad''\<rparr>,
        \<lparr>name = ''Sardar Vallabhbhai Patel Hospital'', phone = ''+91-79-XYZ-0002'',
          address = ''Ellisbridge, Ahmedabad''\<rparr>])]"

definition get_hospitals_for_region :: "string option \<Rightarrow> hospital list" where
  "get_hospitals_for_region region =
     (let region_key = py_lower (py_strip (py_or region ''unknown''))
      in case map_of hospitals_map region_key of Some hs \<Rightarrow> hs | None \<Rightarrow> [])"


section \<open>Recommendation synthesizer\<close>

text \<open>
  The \<^verbatim>\<open>features\<close> dict always carries the four keys below (both callers build it as a
  literal), so it is a record. \<open>aqi_value\<close> may be None (the function tests for it);
  \<open>region\<close> may be None (the JSON API passes a null region through) and is then
  printed as \<^verbatim>\<open>None\<close> by the f-strings.
\<close>

record features =
  fever_cases :: real
  cough_cases :: real
  diarrhea_cases :: real
  region_population :: real

text \<open>
  The body of \<open>generate_recommendations\<close> appends to \<^verbatim>\<open>suggestions\<close> in five blocks, each
  under its own comment line in the source; each block is a definition here, giving
  the items the block appends.
\<close>

definition risk_based :: "string \<Rightarrow> string option \<Rightarrow> string list" where
  "risk_based risk_level region =
     (if risk_level = ''High'' then
        [''Immediately alert public health authorities for '' @ py_str_opt region
           @ '' and activate outbreak response protocols.'',
         ''Escalate testing capacity and prepare isolation facilities for high-risk patients.'']
      else if risk_level = ''Medium'' then
        [''Enable enhanced surveillance in '' @ py_str_opt region
           @ '' with daily case tracking at ward/zone level.'',
         ''Review hospital readiness (beds, oxygen, ICU) in anticipation of a possible surge.'']
      else
        [''Maintain routine surveillance in '' @ py_str_opt region
           @ '' while focusing on early case reporting.''])"

definition symptom_based :: "string \<Rightarrow> string list" where
  "symptom_based top_symptom =
     (if top_symptom = ''Fever'' then
        [''Investigate clusters of fever in schools, hostels and workplaces; run fever screening camps.'']
      else if top_symptom = ''Cough'' then
        [''Strengthen respiratory hygiene measures: masks in crowded places, cough etiquette, ventilation checks.'']
      else
        [''Investigate water and food safety, test local water sources, and promote use of safe drinking water.''])"

definition aqi_based :: "string option \<Rightarrow> int option \<Rightarrow> string \<Rightarrow> string list" where
  "aqi_based region aqi_value aqi_category =
     (case aqi_value of
        None \<Rightarrow> []
      | Some v \<Rightarrow>
          if 200 < v then
            [''Air quality in '' @ py_str_opt region @ '' is '' @ aqi_category
               @ '' (AQI '' @ py_str_int v
               @ ''). Advise masks outdoors and limit exposure for vulnerable groups.'']
          else if 100 < v then
            [''Air quality in '' @ py_str_opt region @ '' is '' @ aqi_category
               @ '' (AQI '' @ py_str_int v
               @ ''). Consider public advisories for people with asthma and heart disease.'']
          else
            [''Air quality in '' @ py_str_opt region @ '' is '' @ aqi_category
               @ '' (AQI '' @ py_str_int v
               @ ''). Maintain current environmental controls.''])"

definition hospital_based :: "int \<Rightarrow> string \<Rightarrow> string list" where
  "hospital_based hospital_count risk_level =
     (if hospital_count = 0 then
        [''No mapped hospitals found for this region. Maintain an updated health facility directory to improve response time.'']
      else if hospital_count \<le> 2 \<and> risk_level \<in> set [''Medium'', ''High''] then
        [''Limited hospital coverage ('' @ py_str_int hospital_count
           @ '' known facilities). Prepare referral pathways to nearby districts.'']
      else
        [''Coordinate with listed hospitals to ensure triage, isolation, and referral protocols are clearly defined.''])"

definition data_quality :: "string list" where
  "data_quality =
     [''Standardize daily data reporting (same time, same fields) to improve model reliability and early warning accuracy.'']"

definition generate_recommendations ::
  "string \<Rightarrow> string option \<Rightarrow> features \<Rightarrow> int option \<Rightarrow> string \<Rightarrow> int
     \<Rightarrow> py_error + string list" where
  "generate_recommendations risk_level region feats aqi_value aqi_category hospital_count =
     (let fever = fever_cases feats;
          cough = cough_cases feats;
          diarrhea = diarrhea_cases feats;
          pop = max (region_population feats) 1
      in
      case py_truediv fever pop of Inl e \<Rightarrow> Inl e | Inr fever_q \<Rightarrow>
      (case py_truediv cough pop of Inl e \<Rightarrow> Inl e | Inr cough_q \<Rightarrow>
      (case py_truediv diarrhea pop of Inl e \<Rightarrow> Inl e | Inr diarrhea_q \<Rightarrow>
      (let fever_rate = fever_q * 10000;
           cough_rate = cough_q * 10000;
           diarrhea_rate = diarrhea_q * 10000;
           rates = [(''Fever'', fever_rate), (''Cough'', cough_rate),
                    (''Diarrhea'', diarrhea_rate)]
       in
       (case py_max_key rates of Inl e \<Rightarrow> Inl e | Inr top_symptom \<Rightarrow>
        Inr ([]
             @ risk_based risk_level region
             @ symptom_based top_symptom
             @ aqi_based region aqi_value aqi_category
             @ hospital_based hospital_count risk_level
             @ data_quality))))))"

section \<open>Assessment pipeline\<close>

text \<open>
  A JSON value, and \<^verbatim>\<open>float(v)\<close> on one: a number converts (a bool is a number in
  Python), a string is parsed, and None, a list or a dict raise TypeError. Python's
  parser of float literals is not part of the repository; it is the parameter
  \<open>str_to_float\<close>, which answers None where \<^verbatim>\<open>float\<close> raises ValueError.
\<close>

datatype json = JNull | JBool bool | JNum real | JStr string | JArr "json list"
  | JObj "(string \<times> json) list"

fun py_float :: "(string \<Rightarrow> real option) \<Rightarrow> json \<Rightarrow> py_error + real" where
  "py_float str_to_float (JNum x) = Inr x"
| "py_float str_to_float (JBool b) = Inr (if b then 1 else 0)"
| "py_float str_to_float (JStr s) =
     (case str_to_float s of None \<Rightarrow> Inl ValueError | Some x \<Rightarrow> Inr x)"
| "py_float str_to_float JNull = Inl TypeError"
| "py_float str_to_float (JArr xs) = Inl TypeError"
| "py_float str_to_float (JObj kvs) = Inl TypeError"

text \<open>\<^verbatim>\<open>d[k]\<close> on a dict raises KeyError when the key is absent.\<close>

definition get_item :: "(string \<rightharpoonup> 'v) \<Rightarrow> string \<Rightarrow> py_error + 'v" where
  "get_item d k = (case d k of None \<Rightarrow> Inl (KeyError k) | Some v \<Rightarrow> Inr v)"

text \<open>
  The rows of the \<^verbatim>\<open>Prediction\<close> table (the id and the timestamp are given by the
  database and are left out), and the store as the list of rows in insertion order;
  \<^verbatim>\<open>db.session.add\<close> followed by \<^verbatim>\<open>commit\<close> appends a row.
\<close>

record prediction_row =
  p_region :: "string option"
  p_fever_cases :: int
  p_cough_cases :: int
  p_diarrhea_cases :: int
  p_region_population :: int
  p_prediction :: int
  p_probability :: real
  p_risk_level :: string
  p_aqi_value :: "int option"
  p_aqi_category :: "string option"
  p_user_id :: nat

text \<open>
  The body of the JSON API's request, a JSON object (\<^verbatim>\<open>request.get_json() or {}\<close>): the
  \<^verbatim>\<open>region\<close> entry is absent, null or a string (a body that is not an object and other
  JSON types of region are outside the model); the other entries are arbitrary JSON
  values under their keys.
\<close>

record api_request =
  region_entry :: "string option option"
  entries :: "string \<rightharpoonup> json"

record api_result =
  r_prediction :: int
  r_probability :: real
  r_risk_level :: string
  r_aqi_value :: int
  r_aqi_category :: string
  r_hospitals :: "hospital list"
  r_suggestions :: "string list"

text \<open>The template variables of \<^verbatim>\<open>predict.html\<close>.\<close>

record page =
  pg_prediction :: "int option"
  pg_probability :: "real option"
  pg_risk_level :: "string option"
  pg_suggestions :: "string list"
  pg_aqi_value :: "int option"
  pg_aqi_category :: "string option"
  pg_hospitals :: "hospital list"
  pg_region :: "string option"

text \<open>
  What a view returns: a body and an HTTP status. \<open>PredictionFailed e\<close> is the text
  \<^verbatim>\<open>Error in prediction: {e}\<close>; \<open>Unhandled e\<close> is an exception that leaves the view, which
  the framework answers with status 500.
\<close>

datatype body =
    ErrorJson string
  | ResultJson api_result
  | PlainText string
  | PredictionFailed py_error
  | PredictPage page
  | Unhandled py_error

type_synonym response = "body \<times> nat"

text \<open>
  The four \<^verbatim>\<open>float(data[...])\<close> conversions of the \<^verbatim>\<open>try\<close> block, in the source's order;
  the first exception ends the block.
\<close>

definition float_fields ::
  "(string \<Rightarrow> real option) \<Rightarrow> (string \<rightharpoonup> json) \<Rightarrow> py_error + features" where
  "float_fields str_to_float d =
     (case get_item d ''fever_cases'' of Inl e \<Rightarrow> Inl e | Inr v1 \<Rightarrow>
     (case py_float str_to_float v1 of Inl e \<Rightarrow> Inl e | Inr fever \<Rightarrow>
     (case get_item d ''cough_cases'' of Inl e \<Rightarrow> Inl e | Inr v2 \<Rightarrow>
     (case py_float str_to_float v2 of Inl e \<Rightarrow> Inl e | Inr cough \<Rightarrow>
     (case get_item d ''diarrhea_cases'' of Inl e \<Rightarrow> Inl e | Inr v3 \<Rightarrow>
     (case py_float str_to_float v3 of Inl e \<Rightarrow> Inl e | Inr diarrhea \<Rightarrow>
     (case get_item d ''region_population'' of Inl e \<Rightarrow> Inl e | Inr v4 \<Rightarrow>
     (case py_float str_to_float v4 of Inl e \<Rightarrow> Inl e | Inr population \<Rightarrow>
       Inr \<lparr>fever_cases = fever, cough_cases = cough, diarrhea_cases = diarrhea,
            region_population = population\<rparr>))))))))"

text \<open>
  \<open>api_predict\<close>. \<open>model\<close> is what \<^verbatim>\<open>load_model()\<close> returned: None when the model file
  does not exist, else the classifier, taken as the function from the feature vector
  to \<^verbatim>\<open>predict_proba(...)[0][1]\<close>. \<open>user_id\<close> is \<^verbatim>\<open>current_user.id\<close>.
\<close>

definition api_predict ::
  "(real list \<Rightarrow> real) option \<Rightarrow> (string \<Rightarrow> real option) \<Rightarrow> nat \<Rightarrow> api_request
     \<Rightarrow> prediction_row list \<Rightarrow> response \<times> prediction_row list" where
  "api_predict model str_to_float user_id request db =
     (case model of
        None \<Rightarrow> ((ErrorJson ''Model not trained'', 500), db)
      | Some clf \<Rightarrow>
         (let region = (case region_entry request of None \<Rightarrow> Some ''Unknown'' | Some v \<Rightarrow> v)
          in
          case float_fields str_to_float (entries request) of
            Inl (KeyError k) \<Rightarrow>
              ((ErrorJson (''Missing field: '' @ [CHR 0x27] @ k @ [CHR 0x27]), 400), db)
          | Inl ValueError \<Rightarrow> ((ErrorJson ''Invalid numeric values'', 400), db)
          | Inl e \<Rightarrow> ((Unhandled e, 500), db)
          | Inr obs \<Rightarrow>
             (let features_array = [fever_cases obs, cough_cases obs, diarrhea_cases obs,
                                    region_population obs];
                  proba = clf features_array;
                  prediction_val = (if 0.5 < proba then 1 else 0);
                  risk_level = compute_risk_level proba;
                  probability_percent = py_round (proba * 100) 2;
                  aqi_value = fst (get_region_aqi region);
                  aqi_category = snd (get_region_aqi region);
                  hospitals = get_hospitals_for_region region
              in
              case generate_recommendations risk_level region obs (Some aqi_value)
                     aqi_category (int (length hospitals)) of
                Inl e \<Rightarrow> ((Unhandled e, 500), db)
              | Inr suggestions \<Rightarrow>
                 (let pred_row =
                        \<lparr>p_region = region,
                         p_fever_cases = py_int (fever_cases obs),
                         p_cough_cases = py_int (cough_cases obs),
                         p_diarrhea_cases = py_int (diarrhea_cases obs),
                         p_region_population = py_int (region_population obs),
                         p_prediction = prediction_val,
                         p_probability = probability_percent,
                         p_risk_level = risk_level,
                         p_aqi_value = Some aqi_value,
                         p_aqi_category = Some aqi_category,
                         p_user_id = user_id\<rparr>
                  in ((ResultJson
                         \<lparr>r_prediction = prediction_val,
                          r_probability = probability_percent,
                          r_risk_level = risk_level,
                          r_aqi_value = aqi_value,
                          r_aqi_category = aqi_category,
                          r_hospitals = hospitals,
                          r_suggestions = suggestions\<rparr>, 200),
                      db @ [pred_row])))))"

text \<open>
  \<open>predict\<close>, the web form. The form's values are strings; every exception of the
  \<^verbatim>\<open>try\<close> block (a missing form key included) is caught and answered with status 400.
\<close>

datatype http_method = GET | POST

definition form_fields ::
  "(string \<Rightarrow> real option) \<Rightarrow> (string \<rightharpoonup> string) \<Rightarrow> py_error + features" where
  "form_fields str_to_float form =
     (case get_item form ''fever_cases'' of Inl e \<Rightarrow> Inl e | Inr v1 \<Rightarrow>
     (case py_float str_to_float (JStr v1) of Inl e \<Rightarrow> Inl e | Inr fever \<Rightarrow>
     (case get_item form ''cough_cases'' of Inl e \<Rightarrow> Inl e | Inr v2 \<Rightarrow>
     (case py_float str_to_float (JStr v2) of Inl e \<Rightarrow> Inl e | Inr cough \<Rightarrow>
     (case get_item form ''diarrhea_cases'' of Inl e \<Rightarrow> Inl e | Inr v3 \<Rightarrow>
     (case py_float str_to_float (JStr v3) of Inl e \<Rightarrow> Inl e | Inr diarrhea \<Rightarrow>
     (case get_item form ''region_population'' of Inl e \<Rightarrow> Inl e | Inr v4 \<Rightarrow>
     (case py_float str_to_float (JStr v4) of Inl e \<Rightarrow> Inl e | Inr population \<Rightarrow>
       Inr \<lparr>fever_cases = fever, cough_cases = cough, diarrhea_cases = diarrhea,
            region_population = population\<rparr>))))))))"

definition predict ::
  "(real list \<Rightarrow> real) option \<Rightarrow> (string \<Rightarrow> real option) \<Rightarrow> nat \<Rightarrow> http_method
     \<Rightarrow> (string \<rightharpoonup> string) \<Rightarrow> prediction_row list \<Rightarrow> response \<times> prediction_row list" where
  "predict model str_to_float user_id http_method form db =
     (case model of
        None \<Rightarrow> ((PlainText ''Model not trained yet. Please train model first.'', 500), db)
      | Some clf \<Rightarrow>
         if http_method = POST then
           (let region =
                  py_or (Some (py_strip (case form ''region'' of None \<Rightarrow> [] | Some s \<Rightarrow> s)))
                    ''Unknown''
            in
            case form_fields str_to_float form of
              Inl e \<Rightarrow> ((PredictionFailed e, 400), db)
            | Inr obs \<Rightarrow>
               (let features_array = [fever_cases obs, cough_cases obs, diarrhea_cases obs,
                                      region_population obs];
                    proba = clf features_array;
                    prediction_val = (if 0.5 < proba then 1 else 0);
                    probability = py_round (proba * 100) 2;
                    risk_level = compute_risk_level proba;
                    aqi_value = fst (get_region_aqi (Some region));
                    aqi_category = snd (get_region_aqi (Some region));
                    hospitals = get_hospitals_for_region (Some region)
                in
                case generate_recommendations risk_level (Some region) obs (Some aqi_value)
                       aqi_category (int (length hospitals)) of
                  Inl e \<Rightarrow> ((PredictionFailed e, 400), db)
                | Inr suggestions \<Rightarrow>
                   (let pred_row =
                          \<lparr>p_region = Some region,
                           p_fever_cases = py_int (fever_cases obs),
                           p_cough_cases = py_int (cough_cases obs),
                           p_diarrhea_cases = py_int (diarrhea_cases obs),
                           p_region_population = py_int (region_population obs),
                           p_prediction = prediction_val,
                           p_probability = probability,
                           p_risk_level = risk_level,
                           p_aqi_value = Some aqi_value,
                           p_aqi_category = Some aqi_category,
                           p_user_id = user_id\<rparr>
                    in ((PredictPage
                           \<lparr>pg_prediction = Some prediction_val,
                            pg_probability = Some probability,
                            pg_risk_level = Some risk_level,
                            pg_suggestions = suggestions,
                            pg_aqi_value = Some aqi_value,
                            pg_aqi_category = Some aqi_category,
                            pg_hospitals = hospitals,
                            pg_region = Some region\<rparr>, 200),
                        db @ [pred_row]))))
         else
           ((PredictPage
               \<lparr>pg_prediction = None, pg_probability = None, pg_risk_level = None,
                pg_suggestions = [], pg_aqi_value = None, pg_aqi_category = None,
                pg_hospitals = [], pg_region = None\<rparr>, 200),
            db))"

section \<open>Region aggregator\<close>

text \<open>
  \<^verbatim>\<open>region_stats\<close> is a defaultdict whose values are dicts with the three keys Low, Medium
  and High: the inner dict is a record of three counters, and incrementing it under
  any other key raises KeyError. The outer dict keeps its keys in insertion order: an
  association list, updated in place or extended at the end.
\<close>

record tier_counts =
  n_Low :: nat
  n_Medium :: nat
  n_High :: nat

definition new_counts :: tier_counts where
  "new_counts = \<lparr>n_Low = 0, n_Medium = 0, n_High = 0\<rparr>"

definition incr_tier :: "string \<Rightarrow> tier_counts \<Rightarrow> py_error + tier_counts" where
  "incr_tier k c =
     (if k = ''Low'' then Inr (c\<lparr>n_Low := n_Low c + 1\<rparr>)
      else if k = ''Medium'' then Inr (c\<lparr>n_Medium := n_Medium c + 1\<rparr>)
      else if k = ''High'' then Inr (c\<lparr>n_High := n_High c + 1\<rparr>)
      else Inl (KeyError k))"

text \<open>\<^verbatim>\<open>region_stats[region]\<close>: the counters stored for the region, or fresh ones.\<close>

definition counters_of :: "(string \<times> tier_counts) list \<Rightarrow> string \<Rightarrow> tier_counts" where
  "counters_of region_stats region =
     (case map_of region_stats region of Some c \<Rightarrow> c | None \<Rightarrow> new_counts)"

text \<open>The loop over the predictions; an exception ends it.\<close>

fun count_regions ::
  "prediction_row list \<Rightarrow> (string \<times> tier_counts) list
     \<Rightarrow> py_error + (string \<times> tier_counts) list" where
  "count_regions [] region_stats = Inr region_stats"
| "count_regions (p # ps) region_stats =
     (let region = py_or (p_region p) ''Unknown''
      in case incr_tier (p_risk_level p) (counters_of region_stats region) of
           Inl e \<Rightarrow> Inl e
         | Inr inner \<Rightarrow> count_regions ps (AList.update region inner region_stats))"

record region_summary =
  s_region :: string
  s_total_predictions :: nat
  s_high_count :: nat
  s_high_percent :: real

definition summary_entry :: "string \<times> tier_counts \<Rightarrow> region_summary" where
  "summary_entry rc =
     (let r = fst rc;
          total = n_Low (snd rc) + n_Medium (snd rc) + n_High (snd rc);
          high = n_High (snd rc);
          high_percent = (if 0 < total then (real high / real total) * 100 else 0.0)
      in \<lparr>s_region = r, s_total_predictions = total, s_high_count = high,
           s_high_percent = py_round high_percent 1\<rparr>)"

text \<open>
  \<^verbatim>\<open>list.sort(key=...)\<close> is stable, and so is \<open>sort_key\<close>; the key is the pair, compared
  lexicographically.
\<close>

definition sort_summaries :: "region_summary list \<Rightarrow> region_summary list" where
  "sort_summaries xs = sort_key (\<lambda>x. (- s_high_percent x, - int (s_total_predictions x))) xs"

definition region_summaries :: "prediction_row list \<Rightarrow> py_error + region_summary list" where
  "region_summaries predictions =
     (case count_regions predictions [] of
        Inl e \<Rightarrow> Inl e
      | Inr region_stats \<Rightarrow> Inr (sort_summaries (map summary_entry region_stats)))"

text \<open>The dashboard aggregates the rows of the current user.\<close>

definition dashboard :: "nat \<Rightarrow> prediction_row list \<Rightarrow> py_error + region_summary list" where
  "dashboard user_id db = region_summaries (filter (\<lambda>p. p_user_id p = user_id) db)"

section \<open>Notions of the specification\<close>

text \<open>
  Names for what the specification talks about: the per-10,000 rate formula, the three
  symptom items, and the kinds of item a recommendation list is made of.
\<close>

definition spec_rate :: "real \<Rightarrow> real \<Rightarrow> real" where
  "spec_rate cnt population = (cnt / max population 1) * 10000"

definition fever_item :: string where
  "fever_item = ''Investigate clusters of fever in schools, hostels and workplaces; run fever screening camps.''"

definition cough_item :: string where
  "cough_item = ''Strengthen respiratory hygiene measures: masks in crowded places, cough etiquette, ventilation checks.''"

definition diarrhea_item :: string where
  "diarrhea_item = ''Investigate water and food safety, test local water sources, and promote use of safe drinking water.''"

definition is_symptom_item :: "string \<Rightarrow> bool" where
  "is_symptom_item s = (s = fever_item \<or> s = cough_item \<or> s = diarrhea_item)"





text \<open>
  The dominant symptom as the specification words it: the highest rate wins, and on a
  tie the first category in the fixed order fever, cough, diarrhea.
\<close>

definition spec_top_symptom :: "features \<Rightarrow> string" where
  "spec_top_symptom f =
     (let fr = spec_rate (fever_cases f) (region_population f);
          cr = spec_rate (cough_cases f) (region_population f);
          dr = spec_rate (diarrhea_cases f) (region_population f)
      in if cr \<le> fr \<and> dr \<le> fr then ''Fever''
         else if dr \<le> cr then ''Cough''
         else ''Diarrhea'')"

definition spec_symptom_item :: "features \<Rightarrow> string" where
  "spec_symptom_item f =
     (if spec_top_symptom f = ''Fever'' then fever_item
      else if spec_top_symptom f = ''Cough'' then cough_item
      else diarrhea_item)"






text \<open>
  The feature vector in its fixed order, and the probability the classifier gives an
  observation.
\<close>

definition feature_vector :: "features \<Rightarrow> real list" where
  "feature_vector obs =
     [fever_cases obs, cough_cases obs, diarrhea_cases obs, region_population obs]"

text \<open>
  A record's tier and flag agree: High comes with flag 1 and Low with flag 0.
\<close>

definition tier_flag_consistent :: "prediction_row \<Rightarrow> bool" where
  "tier_flag_consistent p =
     ((p_risk_level p = ''High'' \<longrightarrow> p_prediction p = 1) \<and>
      (p_risk_level p = ''Low'' \<longrightarrow> p_prediction p = 0))"

text \<open>
  Input validation as the pipeline has it: the error, if any, that converting one
  required field raises, and the first such error in the order the fields are read.
\<close>

definition required_fields :: "string list" where
  "required_fields = [''fever_cases'', ''cough_cases'', ''diarrhea_cases'', ''region_population'']"

definition field_error ::
  "(string \<Rightarrow> real option) \<Rightarrow> (string \<rightharpoonup> json) \<Rightarrow> string \<Rightarrow> py_error option" where
  "field_error str_to_float d k =
     (case d k of
        None \<Rightarrow> Some (KeyError k)
      | Some v \<Rightarrow> (case py_float str_to_float v of Inl e \<Rightarrow> Some e | Inr x \<Rightarrow> None))"

definition first_field_error ::
  "(string \<Rightarrow> real option) \<Rightarrow> (string \<rightharpoonup> json) \<Rightarrow> py_error option" where
  "first_field_error str_to_float d =
     (case List.map_filter (field_error str_to_float d) required_fields of
        [] \<Rightarrow> None
      | e # es \<Rightarrow> Some e)"

definition form_entries :: "(string \<rightharpoonup> string) \<Rightarrow> (string \<rightharpoonup> json)" where
  "form_entries form k = map_option JStr (form k)"


definition scenario_a_features :: features where
  "scenario_a_features =
     \<lparr>fever_cases = 50, cough_cases = 10, diarrhea_cases = 5, region_population = 10000\<rparr>"

definition scenario_a_request :: api_request where
  "scenario_a_request =
     \<lparr>region_entry = Some (Some ''Surat''),
      entries = [''fever_cases'' \<mapsto> JNum 50, ''cough_cases'' \<mapsto> JNum 10,
                 ''diarrhea_cases'' \<mapsto> JNum 5, ''region_population'' \<mapsto> JNum 10000]\<rparr>"

definition missing_cough_request :: api_request where
  "missing_cough_request =
     \<lparr>region_entry = Some (Some ''Surat''),
      entries = [''fever_cases'' \<mapsto> JNum 50, ''diarrhea_cases'' \<mapsto> JNum 5,
                 ''region_population'' \<mapsto> JNum 10000]\<rparr>"

definition table_parser :: "string \<Rightarrow> real option" where
  "table_parser s = map_of [(''50'', 50), (''10'', 10), (''5'', 5), (''10000'', 10000)] s"

definition scenario_a_form :: "string \<rightharpoonup> string" where
  "scenario_a_form =
     [''region'' \<mapsto> ''Surat'', ''fever_cases'' \<mapsto> ''50'', ''cough_cases'' \<mapsto> ''10'',
      ''diarrhea_cases'' \<mapsto> ''5'', ''region_population'' \<mapsto> ''10000'']"

definition bad_form :: "string \<rightharpoonup> string" where
  "bad_form =
     [''region'' \<mapsto> ''Surat'', ''fever_cases'' \<mapsto> ''many'', ''cough_cases'' \<mapsto> ''10'',
      ''diarrhea_cases'' \<mapsto> ''5'', ''region_population'' \<mapsto> ''10000'']"





definition const_oracle :: "real \<Rightarrow> real list \<Rightarrow> real" where
  "const_oracle p xs = p"

definition no_strings :: "string \<Rightarrow> real option" where
  "no_strings s = None"

section \<open>Theorems\<close>

subsection \<open>Risk tiering\<close>

text \<open>
  C1. For every probability \<open>p\<close> (in particular every \<open>p\<close> in [0,1]) \<open>compute_risk_level\<close>
  returns one of the three tiers: Low exactly when \<open>p < 0.30\<close>, Medium exactly when
  \<open>0.30 \<le> p < 0.70\<close>, High exactly when \<open>p \<ge> 0.70\<close>; 0.30 is Medium and 0.70 is High.
\<close>

theorem compute_risk_level_boundaries:
  "(compute_risk_level p = ''Low'' \<longleftrightarrow> p < 0.3) \<and>
   (compute_risk_level p = ''Medium'' \<longleftrightarrow> 0.3 \<le> p \<and> p < 0.7) \<and>
   (compute_risk_level p = ''High'' \<longleftrightarrow> 0.7 \<le> p) \<and>
   compute_risk_level p \<in> {''Low'', ''Medium'', ''High''} \<and>
   compute_risk_level 0.3 = ''Medium'' \<and>
   compute_risk_level 0.7 = ''High'' \<and>
   compute_risk_level 0.2999 = ''Low'' \<and>
   compute_risk_level 0.6999 = ''Medium'' \<and>
   compute_risk_level 1 = ''High'' \<and>
   compute_risk_level 0 = ''Low''"
  by (simp add: compute_risk_level_def)

subsection \<open>Environmental context lookup\<close>















subsection \<open>Recommendation synthesizer\<close>

lemma pop_nonzero: "max (x::real) 1 \<noteq> 0"
  by (simp add: max_def)


lemma risk_based_no_symptom: "filter is_symptom_item (risk_based t r) = []"
  by (simp add: risk_based_def is_symptom_item_def fever_item_def cough_item_def
      diarrhea_item_def)

lemma symptom_based_single: "\<exists>s. symptom_based tsym = [s] \<and> is_symptom_item s"
  by (simp add: symptom_based_def is_symptom_item_def fever_item_def cough_item_def
      diarrhea_item_def)


lemma aqi_based_no_symptom: "filter is_symptom_item (aqi_based r a ac) = []"
  by (simp add: aqi_based_def is_symptom_item_def fever_item_def cough_item_def
      diarrhea_item_def split: option.splits)


lemma hospital_based_no_symptom: "filter is_symptom_item (hospital_based h t) = []"
  by (simp add: hospital_based_def is_symptom_item_def fever_item_def cough_item_def
      diarrhea_item_def)


lemma data_quality_no_symptom: "filter is_symptom_item data_quality = []"
  by (simp add: data_quality_def is_symptom_item_def fever_item_def cough_item_def
      diarrhea_item_def)

text \<open>
  The function never raises: it returns the five blocks in order, the symptom block
  being the one of the dominant symptom.
\<close>

lemma generate_recommendations_blocks:
  "generate_recommendations t r f a ac h =
     Inr (risk_based t r @ symptom_based (spec_top_symptom f) @ aqi_based r a ac
          @ hospital_based h t @ data_quality)"
  by (simp add: generate_recommendations_def py_truediv_def Let_def pop_nonzero
      spec_top_symptom_def spec_rate_def)

lemma symptom_based_top: "symptom_based (spec_top_symptom f) = [spec_symptom_item f]"
  by (simp add: symptom_based_def spec_top_symptom_def spec_symptom_item_def Let_def
      fever_item_def cough_item_def diarrhea_item_def)

text \<open>
  C10. \<open>generate_recommendations\<close> returns a list for every input and never raises
  ZeroDivisionError: the denominator of the three rates is \<open>max population 1\<close>, which is
  at least 1, so each division is defined; this holds in particular for a population of
  0 and for a negative one.
\<close>

theorem generate_recommendations_no_division_by_zero:
  "(\<exists>xs. generate_recommendations t r f a ac h = Inr xs) \<and>
   generate_recommendations t r f a ac h \<noteq> Inl ZeroDivisionError \<and>
   1 \<le> max (region_population f) 1 \<and>
   (\<forall>c. py_truediv c (max (region_population f) 1) = Inr (c / max (region_population f) 1)) \<and>
   (\<exists>xs. generate_recommendations t r (f\<lparr>region_population := 0\<rparr>) a ac h = Inr xs) \<and>
   (\<exists>xs. generate_recommendations t r (f\<lparr>region_population := - 5\<rparr>) a ac h = Inr xs)"
  by (simp add: generate_recommendations_blocks py_truediv_def pop_nonzero)




text \<open>
  C3. For every input the result holds exactly one symptom item, the one of the
  dominant symptom. The rates are \<open>(count / max population 1) * 10000\<close>; the fever item
  is chosen when the fever rate is at least both others, the cough item when the cough
  rate is strictly above the fever rate and at least the diarrhea rate, the diarrhea
  item otherwise (its rate is then strictly above both others). Equal counts of the
  three symptoms give the fever item.
\<close>

theorem dominant_symptom_item:
  "(\<exists>xs. generate_recommendations t r f a ac h = Inr xs \<and>
         filter is_symptom_item xs = [spec_symptom_item f]) \<and>
   spec_symptom_item f =
     (let fr = (fever_cases f / max (region_population f) 1) * 10000;
          cr = (cough_cases f / max (region_population f) 1) * 10000;
          dr = (diarrhea_cases f / max (region_population f) 1) * 10000
      in if cr \<le> fr \<and> dr \<le> fr then fever_item
         else if dr \<le> cr \<and> fr < cr then cough_item
         else diarrhea_item) \<and>
   spec_symptom_item
     \<lparr>fever_cases = c, cough_cases = c, diarrhea_cases = c, region_population = n\<rparr>
     = fever_item"
proof -
  have "filter is_symptom_item
          (risk_based t r @ symptom_based (spec_top_symptom f) @ aqi_based r a ac
           @ hospital_based h t @ data_quality) = [spec_symptom_item f]"
    using symptom_based_single[of "spec_top_symptom f"]
    by (auto simp add: risk_based_no_symptom aqi_based_no_symptom hospital_based_no_symptom
        data_quality_no_symptom symptom_based_top)
  then have a: "\<exists>xs. generate_recommendations t r f a ac h = Inr xs \<and>
         filter is_symptom_item xs = [spec_symptom_item f]"
    by (simp add: generate_recommendations_blocks)
  have b: "spec_symptom_item f =
     (let fr = (fever_cases f / max (region_population f) 1) * 10000;
          cr = (cough_cases f / max (region_population f) 1) * 10000;
          dr = (diarrhea_cases f / max (region_population f) 1) * 10000
      in if cr \<le> fr \<and> dr \<le> fr then fever_item
         else if dr \<le> cr \<and> fr < cr then cough_item
         else diarrhea_item)"
    by (auto simp add: spec_symptom_item_def spec_top_symptom_def spec_rate_def Let_def)
  have c: "spec_symptom_item
     \<lparr>fever_cases = c, cough_cases = c, diarrhea_cases = c, region_population = n\<rparr>
     = fever_item"
    by (simp add: spec_symptom_item_def spec_top_symptom_def spec_rate_def Let_def)
  from a b c show ?thesis by blast
qed

theorem dominant_symptom_item_witness:
  "\<exists>xs. generate_recommendations ''High'' (Some ''Surat'') scenario_a_features (Some 130)
          ''Moderate'' 2 = Inr xs \<and>
        filter is_symptom_item xs = [fever_item]"
proof -
  have "spec_symptom_item scenario_a_features = fever_item"
    by (simp add: spec_symptom_item_def spec_top_symptom_def spec_rate_def
        scenario_a_features_def)
  then show ?thesis
    using dominant_symptom_item[of "''High''" "Some ''Surat''" scenario_a_features "Some 130"
        "''Moderate''" 2 0 0]
    by metis
qed

subsection \<open>Assessment pipeline\<close>




lemma tier_flag:
  "(compute_risk_level p = ''High'' \<longrightarrow> (if 0.5 < p then 1 else 0) = (1::int)) \<and>
   (compute_risk_level p = ''Low'' \<longrightarrow> (if 0.5 < p then 1 else 0) = (0::int))"
  by (simp add: compute_risk_level_def)

lemma api_predict_unavailable:
  "api_predict None parse uid rq db = ((ErrorJson ''Model not trained'', 500), db)"
  by (simp add: api_predict_def)

lemma api_predict_rejected:
  assumes "float_fields parse (entries rq) = Inl e"
  shows "snd (api_predict (Some clf) parse uid rq db) = db"
    and "e = KeyError k \<Longrightarrow> fst (api_predict (Some clf) parse uid rq db) =
           (ErrorJson (''Missing field: '' @ [CHR 0x27] @ k @ [CHR 0x27]), 400)"
    and "e = ValueError \<Longrightarrow> fst (api_predict (Some clf) parse uid rq db) =
           (ErrorJson ''Invalid numeric values'', 400)"
    and "e = TypeError \<Longrightarrow>
           fst (api_predict (Some clf) parse uid rq db) = (Unhandled TypeError, 500)"
  using assms by (cases e; simp add: api_predict_def Let_def)+

lemma api_predict_accepted:
  assumes "float_fields parse (entries rq) = Inr obs"
  shows "\<exists>res row.
     api_predict (Some clf) parse uid rq db = ((ResultJson res, 200), db @ [row]) \<and>
     r_prediction res = (if 0.5 < clf (feature_vector obs) then 1 else 0) \<and>
     p_prediction row = (if 0.5 < clf (feature_vector obs) then 1 else 0) \<and>
     r_probability res = py_round (clf (feature_vector obs) * 100) 2 \<and>
     p_probability row = py_round (clf (feature_vector obs) * 100) 2 \<and>
     r_risk_level res = compute_risk_level (clf (feature_vector obs)) \<and>
     p_risk_level row = compute_risk_level (clf (feature_vector obs)) \<and>
     p_user_id row = uid \<and>
     p_region_population row = py_int (region_population obs)"
  using assms
  by (simp add: api_predict_def Let_def generate_recommendations_blocks feature_vector_def)

lemma predict_unavailable:
  "predict None parse uid m form db =
     ((PlainText ''Model not trained yet. Please train model first.'', 500), db)"
  by (simp add: predict_def)

lemma predict_get: "snd (predict (Some clf) parse uid GET form db) = db"
  by (simp add: predict_def)

lemma predict_rejected:
  assumes "form_fields parse form = Inl e"
  shows "predict (Some clf) parse uid POST form db = ((PredictionFailed e, 400), db)"
  using assms by (simp add: predict_def Let_def)

lemma predict_accepted:
  assumes "form_fields parse form = Inr obs"
  shows "\<exists>pg row.
     predict (Some clf) parse uid POST form db = ((PredictPage pg, 200), db @ [row]) \<and>
     pg_prediction pg = Some (if 0.5 < clf (feature_vector obs) then 1 else 0) \<and>
     p_prediction row = (if 0.5 < clf (feature_vector obs) then 1 else 0) \<and>
     pg_probability pg = Some (py_round (clf (feature_vector obs) * 100) 2) \<and>
     p_probability row = py_round (clf (feature_vector obs) * 100) 2 \<and>
     pg_risk_level pg = Some (compute_risk_level (clf (feature_vector obs))) \<and>
     p_risk_level row = compute_risk_level (clf (feature_vector obs)) \<and>
     p_user_id row = uid \<and>
     p_region_population row = py_int (region_population obs)"
  using assms
  by (simp add: predict_def Let_def generate_recommendations_blocks feature_vector_def)

text \<open>The conversions fail with the first field error, and succeed when there is none.\<close>

lemma float_fields_first_error:
  "(float_fields parse d = Inl e) = (first_field_error parse d = Some e)"
  by (auto simp add: float_fields_def first_field_error_def field_error_def required_fields_def
      get_item_def split: option.splits sum.splits)


lemma form_fields_entries: "form_fields parse form = float_fields parse (form_entries form)"
  by (auto simp add: form_fields_def float_fields_def form_entries_def get_item_def
      split: option.splits sum.splits)


text \<open>Every call leaves the store as it was or appends one row whose tier and flag agree.\<close>

lemma api_predict_appends:
  "snd (api_predict M parse uid rq db) = db \<or>
   (\<exists>row. snd (api_predict M parse uid rq db) = db @ [row] \<and> tier_flag_consistent row)"
proof (cases M)
  case None
  then show ?thesis by (simp add: api_predict_unavailable)
next
  case (Some clf)
  show ?thesis
  proof (cases "float_fields parse (entries rq)")
    case (Inl e)
    then show ?thesis using Some api_predict_rejected(1) by simp
  next
    case (Inr obs)
    obtain res row where
      "api_predict (Some clf) parse uid rq db = ((ResultJson res, 200), db @ [row])"
      "p_prediction row = (if 0.5 < clf (feature_vector obs) then 1 else 0)"
      "p_risk_level row = compute_risk_level (clf (feature_vector obs))"
      using api_predict_accepted[OF Inr, of clf uid db] by blast
    then show ?thesis
      using Some tier_flag[of "clf (feature_vector obs)"]
      by (simp add: tier_flag_consistent_def)
  qed
qed

lemma predict_appends:
  "snd (predict M parse uid m form db) = db \<or>
   (\<exists>row. snd (predict M parse uid m form db) = db @ [row] \<and> tier_flag_consistent row)"
proof (cases M)
  case None
  then show ?thesis by (simp add: predict_unavailable)
next
  case (Some clf)
  show ?thesis
  proof (cases m)
    case GET
    then show ?thesis using Some predict_get by simp
  next
    case POST
    show ?thesis
    proof (cases "form_fields parse form")
      case (Inl e)
      then show ?thesis using Some POST by (simp add: predict_rejected)
    next
      case (Inr obs)
      obtain pg row where
        "predict (Some clf) parse uid POST form db = ((PredictPage pg, 200), db @ [row])"
        "p_prediction row = (if 0.5 < clf (feature_vector obs) then 1 else 0)"
        "p_risk_level row = compute_risk_level (clf (feature_vector obs))"
        using predict_accepted[OF Inr, of clf uid db] by blast
      then show ?thesis
        using Some POST tier_flag[of "clf (feature_vector obs)"]
        by (simp add: tier_flag_consistent_def)
    qed
  qed
qed

lemma scenario_a_fields:
  "float_fields no_strings (entries scenario_a_request) = Inr scenario_a_features \<and>
   form_fields table_parser scenario_a_form = Inr scenario_a_features"
  by (simp add: float_fields_def form_fields_def get_item_def scenario_a_request_def
      scenario_a_form_def scenario_a_features_def table_parser_def)

lemma missing_cough_error:
  "first_field_error no_strings (entries missing_cough_request) =
     Some (KeyError ''cough_cases'')"
  by (simp add: first_field_error_def field_error_def required_fields_def
      missing_cough_request_def)

lemma bad_form_error: "first_field_error table_parser (form_entries bad_form) = Some ValueError"
  by (simp add: first_field_error_def field_error_def required_fields_def bad_form_def
      form_entries_def table_parser_def)




text \<open>
  C5. When the model is not loaded, both views answer with status 500 and their fixed
  message whatever the request holds, and the store is unchanged: nothing of the
  request is read, no lookup is made and nothing is persisted. With the model loaded
  neither view ever gives that answer, and the validation errors (a missing field, a
  string that is not a number) are answered with status 400.
\<close>

theorem model_unavailable_response:
  "api_predict None parse uid rq db = ((ErrorJson ''Model not trained'', 500), db) \<and>
   predict None parse uid m form db =
     ((PlainText ''Model not trained yet. Please train model first.'', 500), db) \<and>
   fst (api_predict (Some clf) parse uid rq db) \<noteq> (ErrorJson ''Model not trained'', 500) \<and>
   fst (predict (Some clf) parse uid m form db) \<noteq>
     (PlainText ''Model not trained yet. Please train model first.'', 500) \<and>
   (\<forall>e. first_field_error parse (entries rq) = Some e \<and>
          (e = ValueError \<or> (\<exists>k. e = KeyError k)) \<longrightarrow>
        snd (fst (api_predict (Some clf) parse uid rq db)) = 400) \<and>
   (\<forall>e. first_field_error parse (form_entries form) = Some e \<longrightarrow>
        snd (fst (predict (Some clf) parse uid POST form db)) = 400)"
proof (intro conjI allI impI)
  show "api_predict None parse uid rq db = ((ErrorJson ''Model not trained'', 500), db)"
    by (rule api_predict_unavailable)
  show "predict None parse uid m form db =
     ((PlainText ''Model not trained yet. Please train model first.'', 500), db)"
    by (rule predict_unavailable)
  show "fst (api_predict (Some clf) parse uid rq db) \<noteq> (ErrorJson ''Model not trained'', 500)"
  proof (cases "float_fields parse (entries rq)")
    case (Inl e)
    then show ?thesis by (cases e) (simp_all add: api_predict_def Let_def)
  next
    case (Inr obs)
    then show ?thesis using api_predict_accepted[OF Inr, of clf uid db] by auto
  qed
  show "fst (predict (Some clf) parse uid m form db) \<noteq>
     (PlainText ''Model not trained yet. Please train model first.'', 500)"
  proof (cases m)
    case GET
    then show ?thesis by (simp add: predict_def)
  next
    case POST
    show ?thesis
    proof (cases "form_fields parse form")
      case (Inl e)
      then show ?thesis using POST by (simp add: predict_rejected)
    next
      case (Inr obs)
      then show ?thesis using POST predict_accepted[OF Inr, of clf uid db] by auto
    qed
  qed
  show "snd (fst (api_predict (Some clf) parse uid rq db)) = 400"
    if "first_field_error parse (entries rq) = Some e \<and>
        (e = ValueError \<or> (\<exists>k. e = KeyError k))" for e
    using that api_predict_rejected(2,3)[of parse rq e]
      float_fields_first_error[of parse "entries rq" e]
    by auto
  show "snd (fst (predict (Some clf) parse uid POST form db)) = 400"
    if "first_field_error parse (form_entries form) = Some e" for e
    using that predict_rejected[of parse form e]
      float_fields_first_error[of parse "form_entries form" e]
    by (simp add: form_fields_entries)
qed

theorem model_unavailable_response_witness:
  "api_predict None no_strings 1 scenario_a_request [] =
     ((ErrorJson ''Model not trained'', 500), []) \<and>
   snd (fst (api_predict (Some (const_oracle 0.82)) no_strings 1 missing_cough_request []))
     = 400 \<and>
   snd (fst (predict (Some (const_oracle 0.82)) table_parser 1 POST bad_form [])) = 400"
  using missing_cough_error bad_form_error
    model_unavailable_response[where parse = no_strings and rq = scenario_a_request
      and uid = 1 and db = "[]"]
    model_unavailable_response[where parse = no_strings and rq = missing_cough_request
      and uid = 1 and db = "[]" and clf = "const_oracle 0.82"]
    model_unavailable_response[where parse = table_parser and form = bad_form
      and uid = 1 and db = "[]" and clf = "const_oracle 0.82"]
  by blast




text \<open>
  C9. Every call of \<open>api_predict\<close> or \<open>predict\<close> leaves the store unchanged or appends
  exactly one record, and that record's tier and flag agree: a record with tier High has
  flag 1 and a record with tier Low has flag 0. So a store whose records all agree
  keeps that property under every call.
\<close>

theorem tier_flag_consistency:
  "(snd (api_predict M parse uid rq db) = db \<or>
    (\<exists>row. snd (api_predict M parse uid rq db) = db @ [row] \<and> tier_flag_consistent row)) \<and>
   (snd (predict M parse uid m form db) = db \<or>
    (\<exists>row. snd (predict M parse uid m form db) = db @ [row] \<and> tier_flag_consistent row)) \<and>
   (list_all tier_flag_consistent db \<longrightarrow>
      list_all tier_flag_consistent (snd (api_predict M parse uid rq db)) \<and>
      list_all tier_flag_consistent (snd (predict M parse uid m form db)))"
  using api_predict_appends[of M parse uid rq db] predict_appends[of M parse uid m form db]
  by auto

lemma scenario_a_rows:
  "map (\<lambda>r. (p_risk_level r, p_prediction r))
     (snd (api_predict (Some (const_oracle 0.82)) no_strings 1 scenario_a_request [])) = [(''High'', 1)] \<and>
   map (\<lambda>r. (p_risk_level r, p_prediction r))
     (snd (api_predict (Some (const_oracle 0.1)) no_strings 1 scenario_a_request [])) = [(''Low'', 0)]"
  using scenario_a_fields
  by (simp add: api_predict_def Let_def generate_recommendations_blocks const_oracle_def compute_risk_level_def)

theorem tier_flag_consistency_witness:
  "list_all tier_flag_consistent [] \<and>
   list_all tier_flag_consistent
     (snd (api_predict (Some (const_oracle 0.82)) no_strings 1 scenario_a_request [])) \<and>
   map (\<lambda>r. (p_risk_level r, p_prediction r))
     (snd (api_predict (Some (const_oracle 0.82)) no_strings 1 scenario_a_request [])) = [(''High'', 1)] \<and>
   map (\<lambda>r. (p_risk_level r, p_prediction r))
     (snd (api_predict (Some (const_oracle 0.1)) no_strings 1 scenario_a_request [])) = [(''Low'', 0)]"
  using scenario_a_rows
    tier_flag_consistency[where M = "Some (const_oracle 0.82)" and parse = no_strings and uid = 1
      and rq = scenario_a_request and db = "[]" and m = POST and form = scenario_a_form]
  by simp

subsection \<open>Region aggregator\<close>




















end
